theory Spec2Isabelle
  imports Main
begin

section \<open>Values\<close>

text \<open>
  The library is dynamically typed: option bags, argument bags, header sources and bodies are
  arbitrary values, told apart at run time with \<^verbatim>\<open>typeof\<close>, \<^verbatim>\<open>instanceof\<close> and the
  helpers \<^verbatim>\<open>isObj\<close>, \<^verbatim>\<open>notNil\<close> of the core package.  A value is therefore a datatype.
  A plain object is its list of own enumerable properties in enumeration order (keys distinct);
  an argument bag is such an object.  Numbers are the integers; a string is a list of code
  units below 256.  A native function is known by its name.  The platform classes the code tests with
  \<^verbatim>\<open>instanceof\<close> are the constructors of \<open>host\<close>; \<open>Document\<close> stands for a document
  that is not an \<^verbatim>\<open>XMLDocument\<close>, and the flag of \<open>Element\<close> says whether the
  element's owner document is an \<^verbatim>\<open>XMLDocument\<close>.
\<close>

datatype host = Blob | ReadableStream | BufferView | ArrayBuffer | URLSearchParams | FormData
  | XMLDocument | Document | Element bool

text \<open>The two placeholder rules that \<^verbatim>\<open>defs.js\<close> constructs (both with
  \<^verbatim>\<open>param = 1\<close>): \<^verbatim>\<open>/\:([\w-]+)/g\<close> and \<^verbatim>\<open>/\{([\w-]+)\}/g\<close>.\<close>

datatype placeholder = COLONS | BRACES

datatype jsval = JUndefined | JNull | JBool bool | JNum int | JStr string
  | JArr "jsval list" | JObj "(string \<times> jsval) list"
  | JHeaders "(string \<times> string) list" | JHost host | JPlaceholder placeholder
  | JFunction string

datatype error = TypeError string | RangeError string | ReferenceError string | Error string
  | MissingURLParameters "string list"

text \<open>\<open>MissingURLParameters ms\<close> is \<^verbatim>\<open>new Error("Missing URL parameters")\<close> together with
  the list \<^verbatim>\<open>missing\<close> that \<^verbatim>\<open>parseURL\<close> reports on the console just before it throws.\<close>

fun isObj :: "jsval \<Rightarrow> bool" where
  "isObj (JArr _) = True"
| "isObj (JObj _) = True"
| "isObj (JHeaders _) = True"
| "isObj (JHost _) = True"
| "isObj (JPlaceholder _) = True"
| "isObj _ = False"

fun notNil :: "jsval \<Rightarrow> bool" where
  "notNil JUndefined = False"
| "notNil JNull = False"
| "notNil _ = True"

fun truthy :: "jsval \<Rightarrow> bool" where
  "truthy JUndefined = False"
| "truthy JNull = False"
| "truthy (JBool b) = b"
| "truthy (JNum n) = (n \<noteq> 0)"
| "truthy (JStr s) = (s \<noteq> [])"
| "truthy _ = True"

fun isString :: "jsval \<Rightarrow> bool" where
  "isString (JStr _) = True"
| "isString _ = False"

fun isBoolean :: "jsval \<Rightarrow> bool" where
  "isBoolean (JBool _) = True"
| "isBoolean _ = False"

subsection \<open>Strings\<close>

definition isSpace :: "char \<Rightarrow> bool" where
  "isSpace c = (c = CHR 0x09 \<or> c = CHR 0x0A \<or> c = CHR 0x0B \<or> c = CHR 0x0C \<or> c = CHR 0x0D
     \<or> c = CHR 0x20 \<or> c = CHR 0xA0)"

definition trim :: "string \<Rightarrow> string" where
  "trim s = rev (dropWhile isSpace (rev (dropWhile isSpace s)))"

definition startsWith :: "string \<Rightarrow> char \<Rightarrow> bool" where
  "startsWith s c = (s \<noteq> [] \<and> hd s = c)"

definition endsWith :: "string \<Rightarrow> char \<Rightarrow> bool" where
  "endsWith s c = (s \<noteq> [] \<and> last s = c)"

definition toUpperChar :: "char \<Rightarrow> char" where
  "toUpperChar c =
     (case map_of (zip ''abcdefghijklmnopqrstuvwxyz'' ''ABCDEFGHIJKLMNOPQRSTUVWXYZ'') c of
        None \<Rightarrow> c | Some u \<Rightarrow> u)"

definition toLowerChar :: "char \<Rightarrow> char" where
  "toLowerChar c =
     (case map_of (zip ''ABCDEFGHIJKLMNOPQRSTUVWXYZ'' ''abcdefghijklmnopqrstuvwxyz'') c of
        None \<Rightarrow> c | Some l \<Rightarrow> l)"

definition toUpperCase :: "string \<Rightarrow> string" where
  "toUpperCase s = map toUpperChar s"

definition toLowerCase :: "string \<Rightarrow> string" where
  "toLowerCase s = map toLowerChar s"

fun joinWith :: "string \<Rightarrow> string list \<Rightarrow> string" where
  "joinWith sep [] = []"
| "joinWith sep [s] = s"
| "joinWith sep (s # t # ts) = s @ sep @ joinWith sep (t # ts)"

function digits :: "nat \<Rightarrow> string" where
  "digits n = (if n < 10 then [''0123456789'' ! n]
               else digits (n div 10) @ [''0123456789'' ! (n mod 10)])"
  by pat_completeness auto
termination
  by (relation "measure id") auto

declare digits.simps [simp del]

definition showInt :: "int \<Rightarrow> string" where
  "showInt i = (if i < 0 then CHR ''-'' # digits (nat (- i)) else digits (nat i))"

text \<open>\<^verbatim>\<open>ToString\<close>.  The string form of a host object depends on content that a value
  does not keep; it reads as the generic object tag.\<close>

fun toString :: "jsval \<Rightarrow> string" where
  "toString JUndefined = ''undefined''"
| "toString JNull = ''null''"
| "toString (JBool b) = (if b then ''true'' else ''false'')"
| "toString (JNum n) = showInt n"
| "toString (JStr s) = s"
| "toString (JArr xs) =
     joinWith '','' (map (\<lambda>x. if x = JUndefined \<or> x = JNull then [] else toString x) xs)"
| "toString (JObj _) = ''[object Object]''"
| "toString (JHeaders _) = ''[object Headers]''"
| "toString (JHost _) = ''[object Object]''"
| "toString (JPlaceholder _) = ''[object Object]''"
| "toString (JFunction f) = ''function '' @ f @ ''() { [native code] }''"

subsection \<open>Properties\<close>

text \<open>Own enumerable properties, in enumeration order.  An array has its indices.\<close>

fun ownProps :: "jsval \<Rightarrow> (string \<times> jsval) list" where
  "ownProps (JObj kvs) = kvs"
| "ownProps (JArr xs) = zip (map digits [0..<length xs]) xs"
| "ownProps _ = []"

text \<open>
  Reading \<^verbatim>\<open>v[k]\<close> finds an own property first and then follows the prototype chain.
  Every object ends that chain in \<^verbatim>\<open>Object.prototype\<close>, whose members are below, with the
  values a plain object reads (\<^verbatim>\<open>__proto__\<close> reads as \<^verbatim>\<open>Object.prototype\<close> itself, an
  object with no enumerable property).  None of them is enumerable.  What the prototypes of
  arrays and of the platform classes add, and the wrappers of primitive values, are not
  modelled.
\<close>

definition objectPrototype :: "(string \<times> jsval) list" where
  "objectPrototype =
     [(''constructor'', JFunction ''Object''),
      (''__defineGetter__'', JFunction ''__defineGetter__''),
      (''__defineSetter__'', JFunction ''__defineSetter__''),
      (''hasOwnProperty'', JFunction ''hasOwnProperty''),
      (''__lookupGetter__'', JFunction ''__lookupGetter__''),
      (''__lookupSetter__'', JFunction ''__lookupSetter__''),
      (''isPrototypeOf'', JFunction ''isPrototypeOf''),
      (''propertyIsEnumerable'', JFunction ''propertyIsEnumerable''),
      (''toString'', JFunction ''toString''),
      (''valueOf'', JFunction ''valueOf''),
      (''__proto__'', JObj []),
      (''toLocaleString'', JFunction ''toLocaleString'')]"

definition inherited :: "string \<Rightarrow> jsval" where
  "inherited k = (case map_of objectPrototype k of None \<Rightarrow> JUndefined | Some x \<Rightarrow> x)"

definition getProp :: "jsval \<Rightarrow> string \<Rightarrow> jsval" where
  "getProp v k =
     (case map_of (ownProps v) k of
        Some x \<Rightarrow> x
      | None \<Rightarrow> if isObj v then inherited k else JUndefined)"

text \<open>\<^verbatim>\<open>delete data[k]\<close> removes an own property and leaves what is inherited; a deleted
  array element reads as \<^verbatim>\<open>undefined\<close>.\<close>

fun deleteProp :: "jsval \<Rightarrow> string \<Rightarrow> jsval" where
  "deleteProp (JObj kvs) k = JObj (filter (\<lambda>p. fst p \<noteq> k) kvs)"
| "deleteProp (JArr xs) k =
     JArr (map (\<lambda>p. if fst p = k then JUndefined else snd p) (ownProps (JArr xs)))"
| "deleteProp v k = v"

text \<open>\<^verbatim>\<open>target[k] = v\<close> on a property list: an existing key keeps its place.\<close>

fun setProp :: "string \<Rightarrow> jsval \<Rightarrow> (string \<times> jsval) list \<Rightarrow> (string \<times> jsval) list" where
  "setProp k v [] = [(k, v)]"
| "setProp k v (p # ps) = (if fst p = k then (k, v) # ps else p # setProp k v ps)"

text \<open>\<^verbatim>\<open>Object.assign({}, ...sources)\<close>: sources that are not objects contribute nothing.\<close>

definition assign1 :: "(string \<times> jsval) list \<Rightarrow> jsval \<Rightarrow> (string \<times> jsval) list" where
  "assign1 target src = fold (\<lambda>p t. setProp (fst p) (snd p) t) (ownProps src) target"

definition objectAssign :: "jsval list \<Rightarrow> (string \<times> jsval) list" where
  "objectAssign sources = fold (\<lambda>s t. assign1 t s) sources []"

section \<open>Definitions (\<^verbatim>\<open>defs.js\<close>)\<close>

definition httpRules :: "jsval \<Rightarrow> jsval \<Rightarrow> bool \<Rightarrow> bool \<Rightarrow> bool \<Rightarrow> jsval" where
  "httpRules rq rs s i c = JObj [(''requestBody'', rq), (''responseBody'', rs),
     (''safe'', JBool s), (''idempotent'', JBool i), (''cacheable'', JBool c)]"

definition STANDARD_HTTP :: "(string \<times> jsval) list" where
  "STANDARD_HTTP =
    [(''GET'',     httpRules (JBool False) (JBool True)  True  True  True),
     (''HEAD'',    httpRules (JBool False) (JBool False) True  True  True),
     (''POST'',    httpRules (JBool True)  (JBool True)  False False False),
     (''PUT'',     httpRules (JBool True)  JNull         False True  False),
     (''PATCH'',   httpRules (JBool True)  JNull         False False False),
     (''DELETE'',  httpRules JNull         JNull         False True  False),
     (''OPTIONS'', httpRules JNull         JNull         True  True  False)]"

record mime_table =
  FORM :: string
  JSON :: string
  XML :: string
  HTML :: string
  XHTML :: string
  TEXT :: string
  BIN :: string
  URL :: string

definition MIME :: mime_table where
  "MIME = \<lparr>FORM = ''multipart/form-data'', JSON = ''application/json'',
     XML = ''application/xml'', HTML = ''text/html'', XHTML = ''application/xhtml+xml'',
     TEXT = ''text/plain'', BIN = ''application/octet-stream'',
     URL = ''application/x-www-form-urlencoded''\<rparr>"

definition CT :: string where "CT = ''Content-Type''"
definition AT :: string where "AT = ''Accept''"

section \<open>Web service and method call\<close>

record webservice =
  ws_id :: string
  ws_options :: "(string \<times> jsval) list"
  ws_httpMethods :: "(string \<times> jsval) list"

text \<open>The constructor of \<^verbatim>\<open>Webservice\<close>: the verb table is the standard one overlaid with
  \<^verbatim>\<open>options.httpMethods\<close>.  The identifier is the explicit \<^verbatim>\<open>id\<close> option; the automatic
  identifiers of the core package are not modelled and read as the empty string.\<close>

definition newWebservice :: "(string \<times> jsval) list \<Rightarrow> webservice" where
  "newWebservice opts =
     \<lparr>ws_id = (case getProp (JObj opts) ''id'' of JStr s \<Rightarrow> s | _ \<Rightarrow> []),
      ws_options = opts,
      ws_httpMethods = objectAssign [JObj STANDARD_HTTP, getProp (JObj opts) ''httpMethods'']\<rparr>"

record methodcall =
  name :: string
  http :: string
  path :: string
  options :: "(string \<times> jsval) list"
  ws :: "webservice option"

definition newMethodCall :: "string \<Rightarrow> string \<Rightarrow> string \<Rightarrow> (string \<times> jsval) list \<Rightarrow> methodcall" where
  "newMethodCall nm urlPath httpMethod opts =
     \<lparr>name = nm, http = toUpperCase httpMethod, path = urlPath, options = opts, ws = None\<rparr>"



definition getOption :: "methodcall \<Rightarrow> string \<Rightarrow> jsval \<Rightarrow> jsval" where
  "getOption mc nm defVal =
     (if getProp (JObj (options mc)) nm \<noteq> JUndefined then getProp (JObj (options mc)) nm
      else (case ws mc of
              None \<Rightarrow> defVal
            | Some w \<Rightarrow> if getProp (JObj (ws_options w)) nm \<noteq> JUndefined
                        then getProp (JObj (ws_options w)) nm else defVal))"

definition getNestedOptions :: "methodcall \<Rightarrow> string \<Rightarrow> jsval \<Rightarrow> jsval \<Rightarrow> (string \<times> jsval) list" where
  "getNestedOptions mc nm defaults override =
     objectAssign
       ([defaults]
        @ (case ws mc of
             None \<Rightarrow> []
           | Some w \<Rightarrow> if isObj (getProp (JObj (ws_options w)) nm)
                       then [getProp (JObj (ws_options w)) nm] else [])
        @ (if isObj (getProp (JObj (options mc)) nm) then [getProp (JObj (options mc)) nm] else [])
        @ (if isObj override then [override] else []))"

definition httpMethods :: "methodcall \<Rightarrow> (string \<times> jsval) list" where
  "httpMethods mc = (case ws mc of Some w \<Rightarrow> ws_httpMethods w | None \<Rightarrow> STANDARD_HTTP)"

definition contentType :: "methodcall \<Rightarrow> jsval" where
  "contentType mc = getOption mc ''contentType'' JNull"

definition acceptType :: "methodcall \<Rightarrow> jsval" where
  "acceptType mc = getOption mc ''acceptType'' JNull"

definition removePlaceholdersFromData :: "methodcall \<Rightarrow> jsval" where
  "removePlaceholdersFromData mc = getOption mc ''removePlaceholdersFromData'' (JBool True)"

definition autoDecodeJSON :: "methodcall \<Rightarrow> jsval" where
  "autoDecodeJSON mc = getOption mc ''autoDecodeJSON'' (JBool True)"

definition autoDecodeXML :: "methodcall \<Rightarrow> jsval" where
  "autoDecodeXML mc = getOption mc ''autoDecodeXML'' (JBool False)"

definition autoDecodeHTML :: "methodcall \<Rightarrow> jsval" where
  "autoDecodeHTML mc = getOption mc ''autoDecodeHTML'' (JBool False)"

definition autoDecodeXHTML :: "methodcall \<Rightarrow> jsval" where
  "autoDecodeXHTML mc = getOption mc ''autoDecodeXHTML'' JNull"

definition jsonStringifyOpts :: "methodcall \<Rightarrow> (string \<times> jsval) list" where
  "jsonStringifyOpts mc =
     getNestedOptions mc ''toJSON'' (JObj [(''replacer'', JNull), (''space'', JNull)]) JUndefined"

subsection \<open>Paths and placeholders\<close>

text \<open>\<^verbatim>\<open>replaceAll(/\/+/g, '/')\<close>.\<close>

fun normalizeSlashes :: "string \<Rightarrow> string" where
  "normalizeSlashes (c # d # cs) =
     (if c = CHR ''/'' \<and> d = CHR ''/'' then normalizeSlashes (d # cs)
      else c # normalizeSlashes (d # cs))"
| "normalizeSlashes cs = cs"

definition fullPath :: "methodcall \<Rightarrow> string" where
  "fullPath mc =
     normalizeSlashes
       ((case ws mc of
           None \<Rightarrow> []
         | Some w \<Rightarrow> if truthy (getProp (JObj (ws_options w)) ''basePath'')
                     then toString (getProp (JObj (ws_options w)) ''basePath'') else [])
        @ ''/'' @ path mc)"

definition isWordChar :: "char \<Rightarrow> bool" where
  "isWordChar c =
     (c \<in> set ''abcdefghijklmnopqrstuvwxyzABCDEFGHIJKLMNOPQRSTUVWXYZ0123456789_'')"

definition isNameChar :: "char \<Rightarrow> bool" where
  "isNameChar c = (isWordChar c \<or> c = CHR ''-'')"

text \<open>A global scan of a path with a rule's pattern cuts it into the characters outside the
  matches and, for each match, the parameter name of capture group 1.\<close>

datatype seg = Lit char | Var string

function scanColons :: "string \<Rightarrow> seg list" where
  "scanColons [] = []"
| "scanColons (c # cs) =
     (if c = CHR '':'' \<and> takeWhile isNameChar cs \<noteq> []
      then Var (takeWhile isNameChar cs) # scanColons (dropWhile isNameChar cs)
      else Lit c # scanColons cs)"
  by pat_completeness auto
termination
  by (relation "measure length") (auto simp: le_imp_less_Suc length_dropWhile_le)

function scanBraces :: "string \<Rightarrow> seg list" where
  "scanBraces [] = []"
| "scanBraces (c # cs) =
     (if c = CHR ''{'' \<and> takeWhile isNameChar cs \<noteq> []
         \<and> startsWith (dropWhile isNameChar cs) (CHR ''}'')
      then Var (takeWhile isNameChar cs) # scanBraces (tl (dropWhile isNameChar cs))
      else Lit c # scanBraces cs)"
  by pat_completeness auto
termination
proof (relation "measure length")
  fix c :: char and cs :: string
  have "length (tl (dropWhile isNameChar cs)) \<le> length cs"
    using length_dropWhile_le [of isNameChar cs] by simp
  then show "(tl (dropWhile isNameChar cs), c # cs) \<in> measure length" by simp
qed auto

fun scan :: "placeholder \<Rightarrow> string \<Rightarrow> seg list" where
  "scan COLONS p = scanColons p"
| "scan BRACES p = scanBraces p"

fun isVar :: "seg \<Rightarrow> bool" where
  "isVar (Var _) = True"
| "isVar (Lit _) = False"

text \<open>The parameter names of a scan, one per match, in order.\<close>

fun params :: "seg list \<Rightarrow> string list" where
  "params [] = []"
| "params (Lit c # ss) = params ss"
| "params (Var p # ss) = p # params ss"

definition matches :: "placeholder \<Rightarrow> string \<Rightarrow> bool" where
  "matches ph p = (params (scan ph p) \<noteq> [])"

definition getPlaceholders :: "methodcall \<Rightarrow> string \<Rightarrow> placeholder option" where
  "getPlaceholders mc p =
     (case getOption mc ''placeholders'' JUndefined of
        JPlaceholder ph \<Rightarrow> Some ph
      | _ \<Rightarrow> if matches COLONS p then Some COLONS
             else if matches BRACES p then Some BRACES else None)"

section \<open>Platform objects\<close>

text \<open>
  \<^verbatim>\<open>URL\<close>, \<^verbatim>\<open>URLSearchParams\<close>, \<^verbatim>\<open>Headers\<close>, \<^verbatim>\<open>Request\<close> and the serialisers belong
  to the platform.  A URL keeps the string it was constructed from (relative to the page's
  origin) and its list of search parameters.  A \<^verbatim>\<open>Headers\<close> object is its list of
  entries, names in lower case as the platform compares them; validation of names and values
  is not modelled.  What a serialiser returns is kept symbolic in \<open>payload\<close>.
\<close>

record url =
  href :: string
  searchParams :: "(string \<times> string) list"

datatype payload = Plain jsval | Stringified jsval jsval jsval | XMLSerialized jsval
  | DocumentOuterHTML | ElementOuterHTML jsval

record request =
  url :: url
  init :: "(string \<times> jsval) list"
  body :: "payload option"

record response =
  resp_headers :: "(string \<times> string) list"
  resp_text :: string

text \<open>
  The environment of the modules: \<open>utilsMIME\<close> is what the identifier \<^verbatim>\<open>MIME\<close> denotes
  inside the utilities module, which uses the table of \<^verbatim>\<open>defs.js\<close> but whose
  \<^verbatim>\<open>require('./defs')\<close> binds only \<^verbatim>\<open>STANDARD_HTTP\<close> and \<^verbatim>\<open>TEMPLATE_HTTP\<close>
  (\<open>None\<close>, the module as it is: the identifier is unbound and evaluating it throws a
  \<^verbatim>\<open>ReferenceError\<close>; \<open>Some\<close>: the module with the table imported);
  \<open>urlSearch\<close> gives the search parameters that the platform's URL parser reads off a
  path string; \<open>fetch\<close> is the transport.
\<close>

record env =
  utilsMIME :: "mime_table option"
  urlSearch :: "string \<Rightarrow> (string \<times> string) list"
  fetch :: "request \<Rightarrow> error + response"

definition newURL :: "env \<Rightarrow> string \<Rightarrow> url" where
  "newURL e p = \<lparr>href = p, searchParams = urlSearch e p\<rparr>"

text \<open>\<^verbatim>\<open>append\<close>, \<^verbatim>\<open>delete\<close> and \<^verbatim>\<open>set\<close> of a list of name-value pairs.\<close>

definition paramAppend :: "string \<Rightarrow> string \<Rightarrow> (string \<times> string) list \<Rightarrow> (string \<times> string) list" where
  "paramAppend k v q = q @ [(k, v)]"

definition paramDelete :: "string \<Rightarrow> (string \<times> string) list \<Rightarrow> (string \<times> string) list" where
  "paramDelete k q = filter (\<lambda>p. fst p \<noteq> k) q"

fun paramSet :: "string \<Rightarrow> string \<Rightarrow> (string \<times> string) list \<Rightarrow> (string \<times> string) list" where
  "paramSet k v [] = [(k, v)]"
| "paramSet k v (p # ps) =
     (if fst p = k then (k, v) # filter (\<lambda>q. fst q \<noteq> k) ps else p # paramSet k v ps)"

definition headersGet :: "(string \<times> string) list \<Rightarrow> string \<Rightarrow> jsval" where
  "headersGet hs n =
     (let vs = map snd (filter (\<lambda>p. fst p = toLowerCase n) hs)
      in if vs = [] then JNull else JStr (joinWith '', '' vs))"

definition headersSet :: "(string \<times> string) list \<Rightarrow> string \<Rightarrow> string \<Rightarrow> (string \<times> string) list" where
  "headersSet hs n v = paramSet (toLowerCase n) v hs"

definition newHeaders :: "(string \<times> jsval) list \<Rightarrow> (string \<times> string) list" where
  "newHeaders kvs = map (\<lambda>p. (toLowerCase (fst p), toString (snd p))) kvs"

section \<open>Utilities: \<^verbatim>\<open>getMimeType\<close>\<close>

definition mimeOf :: "mime_table option \<Rightarrow> (mime_table \<Rightarrow> string) \<Rightarrow> error + string" where
  "mimeOf b f = (case b of None \<Rightarrow> Inl (ReferenceError ''MIME is not defined'')
                 | Some M \<Rightarrow> Inr (f M))"

text \<open>\<^verbatim>\<open>/^<!DOCTYPE html/i\<close>\<close>

definition DOCTYPE_HTML :: "string \<Rightarrow> bool" where
  "DOCTYPE_HTML s = (toUpperCase (take 14 s) = ''<!DOCTYPE HTML'')"

definition stringMime :: "mime_table option \<Rightarrow> string \<Rightarrow> error + string" where
  "stringMime b s =
     (let str = trim s in
      if (startsWith str (CHR ''{'') \<and> endsWith str (CHR ''}''))
         \<or> (startsWith str (CHR ''['') \<and> endsWith str (CHR '']''))
      then mimeOf b JSON
      else if startsWith str (CHR ''<'') \<and> endsWith str (CHR ''>'')
      then (if DOCTYPE_HTML str then mimeOf b HTML else mimeOf b XML)
      else mimeOf b TEXT)"

definition otherObject :: "mime_table option \<Rightarrow> jsval \<Rightarrow> error + string" where
  "otherObject b jsonObjects =
     (if truthy (if jsonObjects = JUndefined then JBool True else jsonObjects)
      then mimeOf b JSON else Inl (TypeError ''Unsupported data object''))"

fun getMimeType :: "mime_table option \<Rightarrow> jsval \<Rightarrow> jsval \<Rightarrow> error + string" where
  "getMimeType b (JStr s) jsonObjects = stringMime b s"
| "getMimeType b (JHost URLSearchParams) jsonObjects = mimeOf b URL"
| "getMimeType b (JHost FormData) jsonObjects = mimeOf b FORM"
| "getMimeType b (JHost Blob) jsonObjects = mimeOf b BIN"
| "getMimeType b (JHost ReadableStream) jsonObjects = mimeOf b BIN"
| "getMimeType b (JHost BufferView) jsonObjects = mimeOf b BIN"
| "getMimeType b (JHost XMLDocument) jsonObjects = mimeOf b XML"
| "getMimeType b (JHost Document) jsonObjects = mimeOf b HTML"
| "getMimeType b (JHost (Element inXML)) jsonObjects = (if inXML then mimeOf b XML else mimeOf b HTML)"
| "getMimeType b (JHost ArrayBuffer) jsonObjects = otherObject b jsonObjects"
| "getMimeType b (JArr xs) jsonObjects = otherObject b jsonObjects"
| "getMimeType b (JObj kvs) jsonObjects = otherObject b jsonObjects"
| "getMimeType b (JHeaders hs) jsonObjects = otherObject b jsonObjects"
| "getMimeType b (JPlaceholder ph) jsonObjects = otherObject b jsonObjects"
| "getMimeType b v jsonObjects = Inl (TypeError ''Invalid data type'')"

section \<open>The method call's pipeline\<close>

subsection \<open>\<^verbatim>\<open>parseURL\<close>\<close>

text \<open>
  The callback of \<^verbatim>\<open>replaceAll\<close> runs once per match, left to right, on the state
  (data, missing, output).  The result pairs the data object as the call leaves it with the
  URL or the error.
\<close>

fun substitute :: "bool \<Rightarrow> seg list \<Rightarrow> jsval \<Rightarrow> string list \<Rightarrow> string
    \<Rightarrow> jsval \<times> string list \<times> string" where
  "substitute removeUsed [] data missing out = (data, missing, out)"
| "substitute removeUsed (Lit c # ss) data missing out =
     substitute removeUsed ss data missing (out @ [c])"
| "substitute removeUsed (Var p # ss) data missing out =
     (if getProp data p \<noteq> JUndefined
      then substitute removeUsed ss (if removeUsed then deleteProp data p else data) missing
             (out @ toString (getProp data p))
      else substitute removeUsed ss data (missing @ [p]) out)"

definition parseURL :: "env \<Rightarrow> methodcall \<Rightarrow> jsval \<Rightarrow> bool \<Rightarrow> jsval \<times> (error + url)" where
  "parseURL e mc data removeUsed =
     (case getPlaceholders mc (fullPath mc) of
        None \<Rightarrow> (data, Inr (newURL e (fullPath mc)))
      | Some ph \<Rightarrow>
          if \<not> isObj data then (data, Inr (newURL e (fullPath mc)))
          else (case substitute removeUsed (scan ph (fullPath mc)) data [] [] of
                  (data', missing, parsedPath) \<Rightarrow>
                    if missing \<noteq> [] then (data', Inl (MissingURLParameters missing))
                    else (data', Inr (newURL e parsedPath))))"

subsection \<open>\<^verbatim>\<open>buildHeaders\<close> and \<^verbatim>\<open>setupBody\<close>\<close>

definition headerDefaults :: "methodcall \<Rightarrow> (string \<times> jsval) list" where
  "headerDefaults mc =
     (let ctype = contentType mc;
          atype = (if acceptType mc = JBool True then ctype else acceptType mc)
      in (if isString ctype \<and> trim (toString ctype) \<noteq> [] then [(CT, ctype)] else [])
         @ (if isString atype \<and> trim (toString atype) \<noteq> [] then [(AT, atype)] else []))"

definition buildHeaders :: "methodcall \<Rightarrow> jsval \<Rightarrow> (string \<times> string) list" where
  "buildHeaders mc localHeaders =
     (case localHeaders of
        JHeaders hs \<Rightarrow> hs
      | _ \<Rightarrow> newHeaders (getNestedOptions mc ''headers'' (JObj (headerDefaults mc)) localHeaders))"

text \<open>The serialisation step of \<^verbatim>\<open>setupBody\<close>, for the content type it has settled on.
  Here \<^verbatim>\<open>MIME\<close> is the table the method-call module imports.\<close>

definition serialize :: "methodcall \<Rightarrow> jsval \<Rightarrow> jsval \<Rightarrow> error + payload" where
  "serialize mc ctype data =
     (if isObj data then
        (if ctype = JStr (JSON MIME)
         then Inr (Stringified data (getProp (JObj (jsonStringifyOpts mc)) ''replacer'')
                     (getProp (JObj (jsonStringifyOpts mc)) ''space''))
         else if ctype = JStr (XML MIME) then Inr (XMLSerialized data)
         else if ctype = JStr (HTML MIME) \<or> ctype = JStr (XHTML MIME)
         then (case data of
                 JHost XMLDocument \<Rightarrow> Inr DocumentOuterHTML
               | JHost Document \<Rightarrow> Inr DocumentOuterHTML
               | JHost (Element x) \<Rightarrow> Inr (ElementOuterHTML data)
               | _ \<Rightarrow> Inl (TypeError ''Invalid HTML Document or Element''))
         else Inr (Plain data))
      else Inr (Plain data))"

text \<open>The content type \<^verbatim>\<open>setupBody\<close> settles on, with the headers after the sniffed type
  has been set on them.\<close>

definition sniff :: "env \<Rightarrow> methodcall \<Rightarrow> jsval \<Rightarrow> (string \<times> string) list
    \<Rightarrow> error + (jsval \<times> (string \<times> string) list)" where
  "sniff e mc data hs =
     (if \<not> truthy (headersGet hs CT) \<and> notNil data then
        (case getMimeType (utilsMIME e) data (getOption mc ''jsonObjects'' (JBool True)) of
           Inl err \<Rightarrow> Inl err
         | Inr t \<Rightarrow> Inr (JStr t, if trim t \<noteq> [] then headersSet hs CT t else hs))
      else Inr (headersGet hs CT, hs))"

definition setupBody :: "env \<Rightarrow> methodcall \<Rightarrow> jsval \<Rightarrow> jsval
    \<Rightarrow> error + (payload \<times> (string \<times> string) list)" where
  "setupBody e mc data headers =
     (case sniff e mc data (buildHeaders mc headers) of
        Inl err \<Rightarrow> Inl err
      | Inr (ctype, hs) \<Rightarrow>
          (case serialize mc ctype data of
             Inl err \<Rightarrow> Inl err
           | Inr d \<Rightarrow> Inr (d, hs)))"

subsection \<open>\<^verbatim>\<open>makeRequest\<close>\<close>

text \<open>
  The three sources, as the constants of \<^verbatim>\<open>makeRequest\<close> define them.  \<open>opts\<close> is the
  argument bag when the constant is evaluated; where a constant is the bag itself it is the
  same object, so later it shows the bag's current content \<open>cur\<close>.
\<close>

definition urlData :: "jsval \<Rightarrow> jsval" where
  "urlData opts = (if notNil (getProp opts ''vars'') then getProp opts ''vars'' else opts)"

definition bodyData :: "jsval \<Rightarrow> jsval \<Rightarrow> jsval \<Rightarrow> jsval" where
  "bodyData methOpts opts cur =
     (if notNil (getProp opts ''body'') then getProp opts ''body''
      else if truthy (getProp methOpts ''requestBody'') then cur else JNull)"

definition queryData :: "jsval \<Rightarrow> jsval \<Rightarrow> jsval \<Rightarrow> jsval" where
  "queryData methOpts opts cur =
     (if isObj (getProp opts ''query'') then getProp opts ''query''
      else if truthy (getProp methOpts ''requestBody'') then JNull else cur)"

fun queryStep :: "string \<Rightarrow> jsval \<Rightarrow> (string \<times> string) list \<Rightarrow> (string \<times> string) list" where
  "queryStep key (JArr vs) q = fold (\<lambda>subval. paramAppend key (toString subval)) vs q"
| "queryStep key JNull q = paramDelete key q"
| "queryStep key v q = paramSet key (toString v) q"

definition composeQuery :: "jsval \<Rightarrow> (string \<times> string) list \<Rightarrow> (string \<times> string) list" where
  "composeQuery src q = fold (\<lambda>key. queryStep key (getProp src key)) (map fst (ownProps src)) q"

definition requestOptions :: "methodcall \<Rightarrow> (string \<times> string) list \<Rightarrow> (string \<times> jsval) list" where
  "requestOptions mc hs =
     getNestedOptions mc ''request'' JUndefined
       (JObj [(''method'', JStr (http mc)), (''headers'', JHeaders hs)])"

text \<open>
  The part of \<^verbatim>\<open>makeRequest\<close> after the URL is resolved: \<open>cur\<close> is the bag as
  \<^verbatim>\<open>parseURL\<close> left it.  The body that \<^verbatim>\<open>setupBody\<close> returns is stored under
  \<^verbatim>\<open>reqOpts.body\<close>, here the field \<open>body\<close>; the other request options are \<open>init\<close>.
\<close>

definition assemble :: "env \<Rightarrow> methodcall \<Rightarrow> jsval \<Rightarrow> jsval \<Rightarrow> jsval \<Rightarrow> url \<Rightarrow> error + request" where
  "assemble e mc methOpts opts cur u =
     (let headers = buildHeaders mc (getProp opts ''headers'');
          bd = bodyData methOpts opts cur;
          qd = queryData methOpts opts cur;
          u' = (if isObj qd then u\<lparr>searchParams := composeQuery qd (searchParams u)\<rparr> else u)
      in if notNil bd then
           (case setupBody e mc bd (JHeaders headers) of
              Inl err \<Rightarrow> Inl err
            | Inr (d, hs) \<Rightarrow> Inr \<lparr>url = u', init = requestOptions mc hs, body = Some d\<rparr>)
         else Inr \<lparr>url = u', init = requestOptions mc headers, body = None\<rparr>)"

text \<open>
  A \<^verbatim>\<open>Headers\<close> instance that the bag holds under \<^verbatim>\<open>headers\<close> is the very object that
  \<^verbatim>\<open>buildHeaders\<close> returned, \<^verbatim>\<open>setupBody\<close> wrote to and the request options carry, so
  the bag shows it as the request has it.
\<close>

fun assignProp :: "jsval \<Rightarrow> string \<Rightarrow> jsval \<Rightarrow> jsval" where
  "assignProp (JObj kvs) k v = JObj (setProp k v kvs)"
| "assignProp w k v = w"

definition publish :: "jsval \<Rightarrow> error + request \<Rightarrow> jsval \<times> (error + request)" where
  "publish cur r =
     (case r of
        Inl err \<Rightarrow> (cur, Inl err)
      | Inr req \<Rightarrow>
          (case getProp cur ''headers'' of
             JHeaders hs \<Rightarrow> (assignProp cur ''headers'' (getProp (JObj (init req)) ''headers''), Inr req)
           | _ \<Rightarrow> (cur, Inr req)))"

text \<open>The result pairs the caller's bag as the call leaves it with the request or the error.
  An absent argument is the empty object; \<^verbatim>\<open>null\<close> has no properties to read.\<close>

definition makeRequest :: "env \<Rightarrow> methodcall \<Rightarrow> jsval \<Rightarrow> jsval \<times> (error + request)" where
  "makeRequest e mc arg =
     (let opts = (if arg = JUndefined then JObj [] else arg);
          methOpts = getProp (JObj (httpMethods mc)) (http mc)
      in if \<not> isObj methOpts then (opts, Inl (Error (''Unknown HTTP method: '' @ http mc)))
         else if opts = JNull then (opts, Inl (TypeError ''Cannot read properties of null''))
         else if getProp methOpts ''requestBody'' = JBool False \<and> notNil (bodyData methOpts opts opts)
         then (opts, Inl (RangeError (''Request body forbidden for '' @ http mc)))
         else if notNil (getProp opts ''vars'')
         then (case parseURL e mc (urlData opts) False of
                 (d, Inl err) \<Rightarrow> (opts, Inl err)
               | (d, Inr u) \<Rightarrow> publish opts (assemble e mc methOpts opts opts u))
         else (case parseURL e mc (urlData opts) True of
                 (d, Inl err) \<Rightarrow> (d, Inl err)
               | (d, Inr u) \<Rightarrow> publish d (assemble e mc methOpts opts d u)))"

subsection \<open>\<^verbatim>\<open>send\<close>\<close>

datatype result = DecodedJSON response | ParsedXML response string | ParsedHTML response
  | Raw response

definition doXHTML :: "methodcall \<Rightarrow> jsval" where
  "doXHTML mc =
     (if truthy (autoDecodeXML mc) \<or> truthy (autoDecodeHTML mc)
      then (if isBoolean (autoDecodeXHTML mc) then autoDecodeXHTML mc else autoDecodeHTML mc)
      else JBool False)"

text \<open>What the XHTML toggle resolves to on its own: its value when that is a boolean, the
  HTML toggle's otherwise.\<close>

definition resolvedXHTML :: "methodcall \<Rightarrow> jsval" where
  "resolvedXHTML mc =
     (if isBoolean (autoDecodeXHTML mc) then autoDecodeXHTML mc else autoDecodeHTML mc)"

definition decodeResponse :: "methodcall \<Rightarrow> response \<Rightarrow> result" where
  "decodeResponse mc r =
     (case headersGet (resp_headers r) CT of
        JStr ctype \<Rightarrow>
          if truthy (autoDecodeJSON mc) \<and> ctype = JSON MIME then DecodedJSON r
          else if truthy (autoDecodeXML mc) \<and> ctype = XML MIME then ParsedXML r ctype
          else if truthy (autoDecodeHTML mc) \<and> ctype = HTML MIME then ParsedHTML r
          else if truthy (doXHTML mc) \<and> ctype = XHTML MIME
          then (if truthy (autoDecodeHTML mc) then ParsedHTML r else ParsedXML r ctype)
          else Raw r
      | _ \<Rightarrow> Raw r)"

text \<open>The result of \<^verbatim>\<open>send\<close>: the caller's bag, the requests handed to the transport, and
  what the promise settles to.\<close>

definition send :: "env \<Rightarrow> methodcall \<Rightarrow> jsval \<Rightarrow> jsval \<times> request list \<times> (error + result)" where
  "send e mc arg =
     (case makeRequest e mc arg of
        (bag, Inl err) \<Rightarrow> (bag, [], Inl err)
      | (bag, Inr req) \<Rightarrow>
          (bag, [req],
           (case fetch e req of
              Inl err \<Rightarrow> Inl err
            | Inr r \<Rightarrow> Inr (decodeResponse mc r))))"

section \<open>Example services\<close>

text \<open>
  The service of the package's examples: JSON content type, \<^verbatim>\<open>Accept\<close> mirroring it, and
  calls on \<^verbatim>\<open>/docs/{docId}\<close>.  \<open>demoEnv\<close> is the environment of the modules as they
  are: the utilities never bind \<^verbatim>\<open>MIME\<close>, the page has no query string, and the transport
  answers every request with an XHTML document.
\<close>

definition demoEnv :: env where
  "demoEnv = \<lparr>utilsMIME = None, urlSearch = (\<lambda>p. []),
     fetch = (\<lambda>r. Inr \<lparr>resp_headers = [(''content-type'', ''application/xhtml+xml'')],
                        resp_text = ''<html/>''\<rparr>)\<rparr>"

definition docsService :: webservice where
  "docsService = newWebservice [(''id'', JStr ''demo''),
     (''contentType'', JStr ''application/json''), (''acceptType'', JBool True)]"


definition getDoc :: methodcall where
  "getDoc = (newMethodCall ''getDoc'' ''/docs/{docId}'' ''get'' [])\<lparr>ws := Some docsService\<rparr>"

definition saveDoc :: methodcall where
  "saveDoc = (newMethodCall ''saveDoc'' ''/docs/{docId}'' ''put'' [])\<lparr>ws := Some docsService\<rparr>"




definition keepKeys :: methodcall where
  "keepKeys = (newMethodCall ''getDoc'' ''/docs/{docId}'' ''get''
                 [(''removePlaceholdersFromData'', JBool False)])\<lparr>ws := Some docsService\<rparr>"

definition postNote :: methodcall where
  "postNote = newMethodCall ''postNote'' ''/notes'' ''post'' []"

definition xhtmlOnly :: methodcall where
  "xhtmlOnly = newMethodCall ''getPage'' ''/page'' ''get'' [(''autoDecodeXHTML'', JBool True)]"

definition htmlPages :: methodcall where
  "htmlPages = newMethodCall ''getPage'' ''/page'' ''get'' [(''autoDecodeHTML'', JBool True)]"

section \<open>Properties\<close>

subsection \<open>Reading and deleting properties\<close>

lemma getProp_obj:
  "getProp (JObj kvs) k = (case map_of kvs k of Some x \<Rightarrow> x | None \<Rightarrow> inherited k)"
  by (simp add: getProp_def)

lemma getProp_not_object: "\<not> isObj v \<Longrightarrow> v \<noteq> JObj kvs \<and> getProp v k = JUndefined"
  by (cases v) (auto simp: getProp_def)

lemma map_of_filter_fst:
  "map_of (filter (\<lambda>kv. Q (fst kv)) kvs) k = (if Q k then map_of kvs k else None)"
  by (induction kvs) auto

lemma getProp_filter_keys:
  "getProp (JObj (filter (\<lambda>kv. Q (fst kv)) kvs)) k
     = (if Q k then getProp (JObj kvs) k else inherited k)"
  by (simp add: getProp_obj map_of_filter_fst)

lemma getProp_deleted:
  "getProp (JObj (filter (\<lambda>p. fst p \<noteq> k) kvs)) q
     = (if q = k then inherited k else getProp (JObj kvs) q)"
  using getProp_filter_keys [of "\<lambda>x. x \<noteq> k" kvs q] by simp

lemma getProp_own_key:
  "k \<in> fst ` set kvs \<Longrightarrow> getProp (JObj kvs) k \<noteq> JUndefined \<Longrightarrow>
   \<exists>v. map_of kvs k = Some v \<and> v \<noteq> JUndefined"
  by (cases "map_of kvs k") (auto simp: getProp_obj map_of_eq_None_iff)


subsection \<open>Registration\<close>




subsection \<open>Substitution of placeholders\<close>

lemma substitute_keeps_data: "fst (substitute False segs d ms out) = d"
  by (induction segs arbitrary: ms out rule: params.induct) auto


lemma substitute_strips:
  "fst (substitute True segs (JObj kvs) ms out)
     = JObj (filter (\<lambda>kv. \<not> (fst kv \<in> set (params segs)
                              \<and> getProp (JObj kvs) (fst kv) \<noteq> JUndefined)) kvs)"
proof (induction segs arbitrary: kvs ms out rule: params.induct)
  case 1
  then show ?case by simp
next
  case (2 c ss)
  then show ?case by simp
next
  case (3 p ss)
  show ?case
  proof (cases "getProp (JObj kvs) p = JUndefined")
    case True
    then show ?thesis using 3 [of kvs "ms @ [p]" out]
      by (auto intro!: filter_cong)
  next
    case False
    have "fst (substitute True (Var p # ss) (JObj kvs) ms out)
        = fst (substitute True ss (JObj (filter (\<lambda>q. fst q \<noteq> p) kvs)) ms
                 (out @ toString (getProp (JObj kvs) p)))"
      using False by simp
    also have "\<dots> = JObj (filter (\<lambda>kv. \<not> (fst kv \<in> set (params ss)
                \<and> getProp (JObj (filter (\<lambda>q. fst q \<noteq> p) kvs)) (fst kv) \<noteq> JUndefined))
                (filter (\<lambda>q. fst q \<noteq> p) kvs))"
      by (rule 3)
    also have "\<dots> = JObj (filter (\<lambda>kv. \<not> (fst kv \<in> set (params (Var p # ss))
                              \<and> getProp (JObj kvs) (fst kv) \<noteq> JUndefined)) kvs)"
      using False by (auto simp: getProp_deleted intro!: filter_cong)
    finally show ?thesis .
  qed
qed


lemma substitute_missing_mono:
  "set ms \<subseteq> set (fst (snd (substitute rm segs d ms out)))"
proof (induction segs arbitrary: d ms out rule: params.induct)
  case 1
  then show ?case by simp
next
  case (2 c ss)
  then show ?case by simp
next
  case (3 p ss)
  show ?case
    using "3" [of "ms @ [p]" d out] "3" [of ms "if rm then deleteProp d p else d"
        "out @ toString (getProp d p)"]
    by auto
qed





subsection \<open>Resolution of the URL\<close>

lemma parseURL_obj:
  assumes "getPlaceholders mc (fullPath mc) = Some ph"
  shows "parseURL e mc (JObj kvs) rm =
     (fst (substitute rm (scan ph (fullPath mc)) (JObj kvs) [] []),
      if fst (snd (substitute rm (scan ph (fullPath mc)) (JObj kvs) [] [])) \<noteq> []
      then Inl (MissingURLParameters (fst (snd (substitute rm (scan ph (fullPath mc)) (JObj kvs) [] []))))
      else Inr (newURL e (snd (snd (substitute rm (scan ph (fullPath mc)) (JObj kvs) [] [])))))"
  using assms by (simp add: parseURL_def split: prod.splits)

lemma parseURL_error:
  "snd (parseURL e mc d rm) = Inl err \<Longrightarrow> \<exists>ms. err = MissingURLParameters ms"
  by (auto simp: parseURL_def split: option.splits if_splits prod.splits)

lemma parseURL_bag:
  "fst (parseURL e mc (JObj kvs) rm) = JObj kvs
   \<or> (\<exists>S. fst (parseURL e mc (JObj kvs) rm) = JObj (filter (\<lambda>kv. fst kv \<notin> S) kvs))"
proof (cases "getPlaceholders mc (fullPath mc)")
  case None
  then show ?thesis by (simp add: parseURL_def)
next
  case (Some ph)
  show ?thesis
  proof (cases rm)
    case True
    have "fst (parseURL e mc (JObj kvs) rm)
        = JObj (filter (\<lambda>kv. fst kv \<notin> {k \<in> set (params (scan ph (fullPath mc))).
                                          getProp (JObj kvs) k \<noteq> JUndefined}) kvs)"
      using True Some by (simp add: parseURL_obj substitute_strips)
    then show ?thesis by blast
  next
    case False
    then show ?thesis using Some by (simp add: parseURL_obj substitute_keeps_data)
  qed
qed

lemma parseURL_bag_obj: "\<exists>kvs'. fst (parseURL e mc (JObj kvs) rm) = JObj kvs'"
  using parseURL_bag [of e mc kvs rm] by auto






subsection \<open>Query composition\<close>

lemma fold_paramAppend:
  "fold (\<lambda>subval. paramAppend k (toString subval)) vs q = q @ map (\<lambda>sv. (k, toString sv)) vs"
  by (induction vs arbitrary: q) (auto simp: paramAppend_def)

lemma paramSet_key: "filter (\<lambda>p. fst p = k) (paramSet k v q) = [(k, v)]"
  by (induction q) (auto simp: filter_empty_conv)

lemma paramSet_others:
  "filter (\<lambda>p. fst p \<noteq> k) (paramSet k v q) = filter (\<lambda>p. fst p \<noteq> k) q"
  by (induction q) auto

lemma composeQuery_distinct:
  assumes "distinct (map fst kvs)"
  shows "composeQuery (JObj kvs) q = fold (\<lambda>p. queryStep (fst p) (snd p)) kvs q"
proof -
  have "\<And>p. p \<in> set kvs \<Longrightarrow> getProp (JObj kvs) (fst p) = snd p"
    using assms by (auto simp: getProp_obj)
  then have "fold ((\<lambda>key. queryStep key (getProp (JObj kvs) key)) \<circ> fst) kvs q
      = fold (\<lambda>p. queryStep (fst p) (snd p)) kvs q"
    by (intro fold_cong) auto
  then show ?thesis by (simp add: composeQuery_def fold_map)
qed

text \<open>
  \<^bold>\<open>C6.\<close>  The query source is processed key by key in enumeration order.  An array
  appends one entry per element, in order; \<^verbatim>\<open>null\<close> deletes the entries of the key; any
  other value leaves exactly one entry of the key, its string form, and the entries of the
  other keys as they were.  The bag \<^verbatim>\<open>{tags:['a','b'], removed:null, mode:2}\<close> on an empty
  query gives \<^verbatim>\<open>tags=a\<close>, \<^verbatim>\<open>tags=b\<close>, \<^verbatim>\<open>mode=2\<close>.
\<close>

theorem composeQuery_by_value_kind:
  assumes "distinct (map fst kvs)"
  shows "composeQuery (JObj kvs) q = fold (\<lambda>p. queryStep (fst p) (snd p)) kvs q
    \<and> queryStep k (JArr vs) q = q @ map (\<lambda>sv. (k, toString sv)) vs
    \<and> queryStep k JNull q = filter (\<lambda>p. fst p \<noteq> k) q
    \<and> (v \<noteq> JNull \<and> (\<forall>xs. v \<noteq> JArr xs) \<longrightarrow>
         queryStep k v q = paramSet k (toString v) q
         \<and> filter (\<lambda>p. fst p = k) (queryStep k v q) = [(k, toString v)]
         \<and> filter (\<lambda>p. fst p \<noteq> k) (queryStep k v q) = filter (\<lambda>p. fst p \<noteq> k) q)
    \<and> composeQuery (JObj [(''tags'', JArr [JStr ''a'', JStr ''b'']), (''removed'', JNull),
                            (''mode'', JNum 2)]) []
        = [(''tags'', ''a''), (''tags'', ''b''), (''mode'', ''2'')]"
proof -
  have a: "composeQuery (JObj kvs) q = fold (\<lambda>p. queryStep (fst p) (snd p)) kvs q"
    using assms by (rule composeQuery_distinct)
  have b: "queryStep k (JArr vs) q = q @ map (\<lambda>sv. (k, toString sv)) vs"
    by (simp add: fold_paramAppend)
  have c: "queryStep k JNull q = filter (\<lambda>p. fst p \<noteq> k) q"
    by (simp add: paramDelete_def)
  have d: "v \<noteq> JNull \<and> (\<forall>xs. v \<noteq> JArr xs) \<longrightarrow>
         queryStep k v q = paramSet k (toString v) q
         \<and> filter (\<lambda>p. fst p = k) (queryStep k v q) = [(k, toString v)]
         \<and> filter (\<lambda>p. fst p \<noteq> k) (queryStep k v q) = filter (\<lambda>p. fst p \<noteq> k) q"
    by (cases v) (simp_all add: paramSet_key paramSet_others)
  have e: "composeQuery (JObj [(''tags'', JArr [JStr ''a'', JStr ''b'']), (''removed'', JNull),
                            (''mode'', JNum 2)]) []
        = [(''tags'', ''a''), (''tags'', ''b''), (''mode'', ''2'')]"
    by code_simp
  from a b c d e show ?thesis by blast
qed

theorem composeQuery_by_value_kind_witness:
  "composeQuery (JObj [(''mode'', JNum 3), (''tags'', JArr [JStr ''c'']), (''old'', JNull)])
       [(''mode'', ''1''), (''old'', ''x''), (''tags'', ''a''), (''mode'', ''2'')]
     = [(''mode'', ''3''), (''tags'', ''a''), (''tags'', ''c'')]"
proof -
  have d: "distinct (map fst [(''mode'', JNum 3), (''tags'', JArr [JStr ''c'']), (''old'', JNull)])"
    by simp
  have e: "fold (\<lambda>p. queryStep (fst p) (snd p))
             [(''mode'', JNum 3), (''tags'', JArr [JStr ''c'']), (''old'', JNull)]
             [(''mode'', ''1''), (''old'', ''x''), (''tags'', ''a''), (''mode'', ''2'')]
         = [(''mode'', ''3''), (''tags'', ''a''), (''tags'', ''c'')]"
    by code_simp
  show ?thesis
    using composeQuery_by_value_kind [OF d] e by simp
qed

subsection \<open>Content types\<close>

lemma getMimeType_unbound:
  "getMimeType None v jo = Inl (ReferenceError ''MIME is not defined'')
   \<or> (\<exists>msg. getMimeType None v jo = Inl (TypeError msg))"
  by (cases "(None :: mime_table option, v, jo)" rule: getMimeType.cases)
     (auto simp: stringMime_def mimeOf_def otherObject_def Let_def)

lemma getMimeType_unbound_fails: "getMimeType None v jo \<noteq> Inr t"
  using getMimeType_unbound [of v jo] by auto

lemma getMimeType_with_table:
  "getMimeType (Some MIME) (JStr s) jo
     = Inr (if (startsWith (trim s) (CHR ''{'') \<and> endsWith (trim s) (CHR ''}''))
               \<or> (startsWith (trim s) (CHR ''['') \<and> endsWith (trim s) (CHR '']''))
            then ''application/json''
            else if startsWith (trim s) (CHR ''<'') \<and> endsWith (trim s) (CHR ''>'')
            then (if DOCTYPE_HTML (trim s) then ''text/html'' else ''application/xml'')
            else ''text/plain'')"
  "getMimeType (Some MIME) (JHost URLSearchParams) jo = Inr ''application/x-www-form-urlencoded''"
  "getMimeType (Some MIME) (JHost FormData) jo = Inr ''multipart/form-data''"
  "getMimeType (Some MIME) (JHost Blob) jo = Inr ''application/octet-stream''"
  "getMimeType (Some MIME) (JHost ReadableStream) jo = Inr ''application/octet-stream''"
  "getMimeType (Some MIME) (JHost BufferView) jo = Inr ''application/octet-stream''"
  "getMimeType (Some MIME) (JHost XMLDocument) jo = Inr ''application/xml''"
  "getMimeType (Some MIME) (JHost Document) jo = Inr ''text/html''"
  "getMimeType (Some MIME) (JHost (Element inXML)) jo
     = Inr (if inXML then ''application/xml'' else ''text/html'')"
  "getMimeType (Some MIME) (JHost ArrayBuffer) jo
     = (if truthy (if jo = JUndefined then JBool True else jo)
        then Inr ''application/json'' else Inl (TypeError ''Unsupported data object''))"
  "getMimeType (Some MIME) (JObj kvs) jo
     = (if truthy (if jo = JUndefined then JBool True else jo)
        then Inr ''application/json'' else Inl (TypeError ''Unsupported data object''))"
  by (simp_all add: stringMime_def otherObject_def mimeOf_def MIME_def Let_def)

text \<open>
  \<^bold>\<open>C4.\<close>  The utilities module never binds \<^verbatim>\<open>MIME\<close> (its \<^verbatim>\<open>require\<close> line takes
  \<^verbatim>\<open>STANDARD_HTTP\<close> and \<^verbatim>\<open>TEMPLATE_HTTP\<close> only), so \<^verbatim>\<open>getMimeType\<close> returns a
  type for no value at all.  Every string, the four strings of the specification among them,
  ends in the \<^verbatim>\<open>ReferenceError\<close>, and so do \<^verbatim>\<open>Blob\<close>, \<^verbatim>\<open>URLSearchParams\<close>,
  \<^verbatim>\<open>FormData\<close> and a plain object with \<^verbatim>\<open>jsonObjects\<close> on; with \<^verbatim>\<open>jsonObjects\<close>
  off a plain object gives the \<^verbatim>\<open>TypeError\<close>.  A \<^verbatim>\<open>POST\<close> call with the body
  \<^verbatim>\<open>'hello'\<close> and no content type therefore fails in \<^verbatim>\<open>makeRequest\<close>.
\<close>

theorem getMimeType_never_classifies:
  "utilsMIME demoEnv = None
   \<and> getMimeType (utilsMIME demoEnv) (JStr s) jo = Inl (ReferenceError ''MIME is not defined'')
   \<and> getMimeType (utilsMIME demoEnv) (JStr ''hello'') JUndefined
       = Inl (ReferenceError ''MIME is not defined'')
   \<and> getMimeType (utilsMIME demoEnv) (JStr ''{\"a\":1}'') JUndefined
       = Inl (ReferenceError ''MIME is not defined'')
   \<and> getMimeType (utilsMIME demoEnv) (JStr ''<!DOCTYPE html><p>x</p>'') JUndefined
       = Inl (ReferenceError ''MIME is not defined'')
   \<and> getMimeType (utilsMIME demoEnv) (JStr ''<a>1</a>'') JUndefined
       = Inl (ReferenceError ''MIME is not defined'')
   \<and> getMimeType (utilsMIME demoEnv) (JHost Blob) jo = Inl (ReferenceError ''MIME is not defined'')
   \<and> getMimeType (utilsMIME demoEnv) (JHost URLSearchParams) jo
       = Inl (ReferenceError ''MIME is not defined'')
   \<and> getMimeType (utilsMIME demoEnv) (JHost FormData) jo
       = Inl (ReferenceError ''MIME is not defined'')
   \<and> getMimeType (utilsMIME demoEnv) (JObj kvs) (JBool True)
       = Inl (ReferenceError ''MIME is not defined'')
   \<and> getMimeType (utilsMIME demoEnv) (JObj kvs) (JBool False)
       = Inl (TypeError ''Unsupported data object'')
   \<and> getMimeType (utilsMIME demoEnv) v jo \<noteq> Inr t
   \<and> makeRequest demoEnv postNote (JObj [(''body'', JStr ''hello'')])
       = (JObj [(''body'', JStr ''hello'')], Inl (ReferenceError ''MIME is not defined''))"
proof -
  have n: "utilsMIME demoEnv = None" by (simp add: demoEnv_def)
  have s: "getMimeType None (JStr s) jo = Inl (ReferenceError ''MIME is not defined'')" for s jo
    by (simp add: stringMime_def mimeOf_def Let_def)
  have h: "getMimeType None (JHost Blob) jo = Inl (ReferenceError ''MIME is not defined'')"
    "getMimeType None (JHost URLSearchParams) jo = Inl (ReferenceError ''MIME is not defined'')"
    "getMimeType None (JHost FormData) jo = Inl (ReferenceError ''MIME is not defined'')"
    "getMimeType None (JObj kvs) (JBool True) = Inl (ReferenceError ''MIME is not defined'')"
    "getMimeType None (JObj kvs) (JBool False) = Inl (TypeError ''Unsupported data object'')"
    by (simp_all add: mimeOf_def otherObject_def)
  have m: "makeRequest demoEnv postNote (JObj [(''body'', JStr ''hello'')])
       = (JObj [(''body'', JStr ''hello'')], Inl (ReferenceError ''MIME is not defined''))"
    by code_simp
  from n s h m getMimeType_unbound_fails show ?thesis by simp
qed

subsection \<open>Building the request\<close>

lemma snd_publish: "snd (publish cur r) = r"
  by (cases r) (auto simp: publish_def split: jsval.splits)

lemma publish_error: "publish cur (Inl err) = (cur, Inl err)"
  by (simp add: publish_def)

lemma publish_no_headers:
  "(\<And>hs. getProp cur ''headers'' \<noteq> JHeaders hs) \<Longrightarrow> publish cur r = (cur, r)"
  by (cases r) (auto simp: publish_def split: jsval.splits)

lemma inherited_headers: "inherited ''headers'' = JUndefined"
  by code_simp

lemma makeRequest_known_verb:
  assumes "getProp (JObj (httpMethods mc)) (http mc) = methOpts" and "isObj methOpts"
    and "arg \<noteq> JNull" and "arg \<noteq> JUndefined"
  shows "makeRequest e mc arg =
     (if getProp methOpts ''requestBody'' = JBool False \<and> notNil (bodyData methOpts arg arg)
      then (arg, Inl (RangeError (''Request body forbidden for '' @ http mc)))
      else if notNil (getProp arg ''vars'')
      then (case snd (parseURL e mc (urlData arg) False) of
              Inl err \<Rightarrow> (arg, Inl err)
            | Inr u \<Rightarrow> publish arg (assemble e mc methOpts arg arg u))
      else (case snd (parseURL e mc arg True) of
              Inl err \<Rightarrow> (fst (parseURL e mc arg True), Inl err)
            | Inr u \<Rightarrow> publish (fst (parseURL e mc arg True))
                        (assemble e mc methOpts arg (fst (parseURL e mc arg True)) u)))"
  using assms
  by (simp add: makeRequest_def Let_def urlData_def split: prod.splits sum.splits)

lemma makeRequest_no_argument: "makeRequest e mc JUndefined = makeRequest e mc (JObj [])"
  by (simp add: makeRequest_def)

lemma makeRequest_result:
  assumes "getProp (JObj (httpMethods mc)) (http mc) = methOpts" and "isObj methOpts"
    and "arg \<noteq> JNull" and "arg \<noteq> JUndefined"
    and "\<not> (getProp methOpts ''requestBody'' = JBool False \<and> notNil (bodyData methOpts arg arg))"
  shows "snd (makeRequest e mc arg) =
     (if notNil (getProp arg ''vars'')
      then (case snd (parseURL e mc (urlData arg) False) of
              Inl err \<Rightarrow> Inl err
            | Inr u \<Rightarrow> assemble e mc methOpts arg arg u)
      else (case snd (parseURL e mc arg True) of
              Inl err \<Rightarrow> Inl err
            | Inr u \<Rightarrow> assemble e mc methOpts arg (fst (parseURL e mc arg True)) u))"
proof (cases "notNil (getProp arg ''vars'')")
  case True
  then show ?thesis
    unfolding makeRequest_known_verb [OF assms(1-4)] if_not_P [OF assms(5)]
    by (cases "snd (parseURL e mc (urlData arg) False)") (simp_all add: snd_publish)
next
  case False
  then show ?thesis
    unfolding makeRequest_known_verb [OF assms(1-4)] if_not_P [OF assms(5)]
    by (cases "snd (parseURL e mc arg True)") (simp_all add: snd_publish)
qed

lemma assemble_no_body:
  assumes "bodyData methOpts opts cur = JNull"
  shows "assemble e mc methOpts opts cur u =
     Inr \<lparr>url = (if isObj (queryData methOpts opts cur)
                 then u\<lparr>searchParams := composeQuery (queryData methOpts opts cur) (searchParams u)\<rparr>
                 else u),
          init = requestOptions mc (buildHeaders mc (getProp opts ''headers'')), body = None\<rparr>"
  using assms by (simp add: assemble_def Let_def)

lemma serialize_plain_object:
  "serialize mc ctype (JObj kvs) = Inr d \<Longrightarrow>
   d = Plain (JObj kvs)
   \<or> d = Stringified (JObj kvs) (getProp (JObj (jsonStringifyOpts mc)) ''replacer'')
             (getProp (JObj (jsonStringifyOpts mc)) ''space'')
   \<or> d = XMLSerialized (JObj kvs)"
  by (auto simp: serialize_def split: if_splits)

lemma setupBody_payload:
  "setupBody e mc data headers = Inr (d, hs) \<Longrightarrow> \<exists>ctype. serialize mc ctype data = Inr d"
  by (auto simp: setupBody_def split: sum.splits prod.splits)

lemma stripped_bag_headers:
  assumes "getProp (JObj kvs) ''headers'' = JUndefined"
  shows "getProp (fst (parseURL e mc (JObj kvs) rm)) ''headers'' = JUndefined"
  using parseURL_bag [of e mc kvs rm] assms
    getProp_filter_keys [of "\<lambda>k. k \<notin> S" kvs "''headers''" for S]
  by (auto simp: inherited_headers)

text \<open>
  \<^bold>\<open>C1.\<close>  \<^verbatim>\<open>makeRequest\<close> on a plain bag with none of the keys \<^verbatim>\<open>vars\<close>, \<^verbatim>\<open>body\<close>,
  \<^verbatim>\<open>query\<close>, \<^verbatim>\<open>headers\<close>, for a verb the table knows, once the URL resolves (leaving the
  bag as \<open>bag\<close>, the placeholder keys stripped).  When the verb's \<^verbatim>\<open>requestBody\<close> is not
  truthy (\<^verbatim>\<open>false\<close>: forbidden, as for GET; \<^verbatim>\<open>null\<close>: optional, as for DELETE and
  OPTIONS) there is no body and the stripped bag is the query source.  When it is truthy
  (required, as for POST and PUT) the stripped bag is what \<^verbatim>\<open>setupBody\<close> turns into the
  body, and the query of the URL is left as resolved.
\<close>

theorem makeRequest_plain_bag:
  assumes m: "getProp (JObj (httpMethods mc)) (http mc) = methOpts"
    and o: "isObj methOpts"
    and plain: "getProp (JObj kvs) ''vars'' = JUndefined" "getProp (JObj kvs) ''body'' = JUndefined"
      "getProp (JObj kvs) ''query'' = JUndefined" "getProp (JObj kvs) ''headers'' = JUndefined"
    and url: "parseURL e mc (JObj kvs) True = (bag, Inr u)"
  shows "isObj bag
    \<and> (\<not> truthy (getProp methOpts ''requestBody'') \<longrightarrow>
         bodyData methOpts (JObj kvs) bag = JNull \<and> queryData methOpts (JObj kvs) bag = bag
         \<and> makeRequest e mc (JObj kvs)
             = (bag, Inr \<lparr>url = u\<lparr>searchParams := composeQuery bag (searchParams u)\<rparr>,
                          init = requestOptions mc (buildHeaders mc JUndefined), body = None\<rparr>))
    \<and> (truthy (getProp methOpts ''requestBody'') \<longrightarrow>
         bodyData methOpts (JObj kvs) bag = bag \<and> queryData methOpts (JObj kvs) bag = JNull
         \<and> makeRequest e mc (JObj kvs)
             = (bag, case setupBody e mc bag (JHeaders (buildHeaders mc JUndefined)) of
                       Inl err \<Rightarrow> Inl err
                     | Inr (d, hs) \<Rightarrow> Inr \<lparr>url = u, init = requestOptions mc hs, body = Some d\<rparr>)
         \<and> (\<forall>d hs. setupBody e mc bag (JHeaders (buildHeaders mc JUndefined)) = Inr (d, hs) \<longrightarrow>
               d = Plain bag
               \<or> d = Stringified bag (getProp (JObj (jsonStringifyOpts mc)) ''replacer'')
                         (getProp (JObj (jsonStringifyOpts mc)) ''space'')
               \<or> d = XMLSerialized bag))"
proof -
  obtain kvs' where bag: "bag = JObj kvs'"
    using parseURL_bag_obj [of e mc kvs True] url by auto
  have nn: "JObj kvs \<noteq> JNull" "JObj kvs \<noteq> JUndefined" by simp_all
  have nh: "getProp bag ''headers'' \<noteq> JHeaders hs" for hs
    using stripped_bag_headers [OF plain(4), of e mc True] url by simp
  have mk: "makeRequest e mc (JObj kvs) = (bag, assemble e mc methOpts (JObj kvs) bag u)"
    using plain url
    by (auto simp: makeRequest_known_verb [OF m o nn] bodyData_def publish_no_headers [OF nh])
  have a: "\<not> truthy (getProp methOpts ''requestBody'') \<longrightarrow>
         bodyData methOpts (JObj kvs) bag = JNull \<and> queryData methOpts (JObj kvs) bag = bag
         \<and> makeRequest e mc (JObj kvs)
             = (bag, Inr \<lparr>url = u\<lparr>searchParams := composeQuery bag (searchParams u)\<rparr>,
                          init = requestOptions mc (buildHeaders mc JUndefined), body = None\<rparr>)"
    using plain bag by (simp add: mk assemble_def bodyData_def queryData_def)
  have b: "truthy (getProp methOpts ''requestBody'') \<longrightarrow>
         bodyData methOpts (JObj kvs) bag = bag \<and> queryData methOpts (JObj kvs) bag = JNull
         \<and> makeRequest e mc (JObj kvs)
             = (bag, case setupBody e mc bag (JHeaders (buildHeaders mc JUndefined)) of
                       Inl err \<Rightarrow> Inl err
                     | Inr (d, hs) \<Rightarrow> Inr \<lparr>url = u, init = requestOptions mc hs, body = Some d\<rparr>)"
    using plain bag by (simp add: mk assemble_def bodyData_def queryData_def)
  have c: "\<forall>d hs. setupBody e mc bag (JHeaders (buildHeaders mc JUndefined)) = Inr (d, hs) \<longrightarrow>
               d = Plain bag
               \<or> d = Stringified bag (getProp (JObj (jsonStringifyOpts mc)) ''replacer'')
                         (getProp (JObj (jsonStringifyOpts mc)) ''space'')
               \<or> d = XMLSerialized bag"
    unfolding bag using setupBody_payload serialize_plain_object by blast
  from a b c bag show ?thesis by simp
qed

theorem makeRequest_plain_bag_witness:
  "makeRequest demoEnv getDoc (JObj [(''docId'', JStr ''123''), (''extra'', JStr ''x'')])
     = (JObj [(''extra'', JStr ''x'')],
        Inr \<lparr>url = \<lparr>href = ''/docs/123'', searchParams = [(''extra'', ''x'')]\<rparr>,
             init = [(''method'', JStr ''GET''),
                     (''headers'', JHeaders [(''content-type'', ''application/json''),
                                             (''accept'', ''application/json'')])],
             body = None\<rparr>)
   \<and> makeRequest demoEnv saveDoc (JObj [(''docId'', JStr ''9''), (''title'', JStr ''hi'')])
     = (JObj [(''title'', JStr ''hi'')],
        Inr \<lparr>url = \<lparr>href = ''/docs/9'', searchParams = []\<rparr>,
             init = [(''method'', JStr ''PUT''),
                     (''headers'', JHeaders [(''content-type'', ''application/json''),
                                             (''accept'', ''application/json'')])],
             body = Some (Stringified (JObj [(''title'', JStr ''hi'')]) JNull JNull)\<rparr>)"
proof -
  let ?g = "JObj [(''docId'', JStr ''123''), (''extra'', JStr ''x'')]"
  let ?s = "JObj [(''docId'', JStr ''9''), (''title'', JStr ''hi'')]"
  have g1: "getProp (JObj (httpMethods getDoc)) (http getDoc)
              = httpRules (JBool False) (JBool True) True True True" by code_simp
  have g2: "isObj (httpRules (JBool False) (JBool True) True True True)" by code_simp
  have g3: "getProp ?g ''vars'' = JUndefined" "getProp ?g ''body'' = JUndefined"
    "getProp ?g ''query'' = JUndefined" "getProp ?g ''headers'' = JUndefined" by code_simp+
  have g4: "parseURL demoEnv getDoc ?g True
              = (JObj [(''extra'', JStr ''x'')], Inr \<lparr>href = ''/docs/123'', searchParams = []\<rparr>)"
    by code_simp
  have g5: "\<not> truthy (getProp (httpRules (JBool False) (JBool True) True True True) ''requestBody'')"
    by code_simp
  have g6: "composeQuery (JObj [(''extra'', JStr ''x'')]) [] = [(''extra'', ''x'')]"
    by code_simp
  have g7: "requestOptions getDoc (buildHeaders getDoc JUndefined)
          = [(''method'', JStr ''GET''),
             (''headers'', JHeaders [(''content-type'', ''application/json''),
                                     (''accept'', ''application/json'')])]"
    by code_simp
  have s1: "getProp (JObj (httpMethods saveDoc)) (http saveDoc)
              = httpRules (JBool True) JNull False True False" by code_simp
  have s2: "isObj (httpRules (JBool True) JNull False True False)" by code_simp
  have s3: "getProp ?s ''vars'' = JUndefined" "getProp ?s ''body'' = JUndefined"
    "getProp ?s ''query'' = JUndefined" "getProp ?s ''headers'' = JUndefined" by code_simp+
  have s4: "parseURL demoEnv saveDoc ?s True
              = (JObj [(''title'', JStr ''hi'')], Inr \<lparr>href = ''/docs/9'', searchParams = []\<rparr>)"
    by code_simp
  have s5: "truthy (getProp (httpRules (JBool True) JNull False True False) ''requestBody'')"
    by code_simp
  have s6: "setupBody demoEnv saveDoc (JObj [(''title'', JStr ''hi'')])
                    (JHeaders (buildHeaders saveDoc JUndefined))
          = Inr (Stringified (JObj [(''title'', JStr ''hi'')]) JNull JNull,
                 [(''content-type'', ''application/json''), (''accept'', ''application/json'')])"
    by code_simp
  have s7: "requestOptions saveDoc
              [(''content-type'', ''application/json''), (''accept'', ''application/json'')]
          = [(''method'', JStr ''PUT''),
             (''headers'', JHeaders [(''content-type'', ''application/json''),
                                     (''accept'', ''application/json'')])]"
    by code_simp
  show ?thesis
    using makeRequest_plain_bag [OF g1 g2 g3 g4] g5 makeRequest_plain_bag [OF s1 s2 s3 s4] s5
    by (simp add: g6 g7 s6 s7)
qed

lemma makeRequest_strips_bag:
  assumes m: "getProp (JObj (httpMethods mc)) (http mc) = methOpts"
    and o: "isObj methOpts"
    and v: "getProp (JObj kvs) ''vars'' = JUndefined"
    and h: "getProp (JObj kvs) ''headers'' = JUndefined"
    and b: "\<not> (getProp methOpts ''requestBody'' = JBool False \<and> notNil (getProp (JObj kvs) ''body''))"
  shows "fst (makeRequest e mc (JObj kvs)) = fst (parseURL e mc (JObj kvs) True)"
proof -
  have nn: "JObj kvs \<noteq> JNull" "JObj kvs \<noteq> JUndefined" by simp_all
  have nh: "getProp (fst (parseURL e mc (JObj kvs) True)) ''headers'' \<noteq> JHeaders hs" for hs
    using stripped_bag_headers [OF h, of e mc True] by simp
  show ?thesis
    using v b
    by (auto simp: makeRequest_known_verb [OF m o nn] bodyData_def publish_no_headers [OF nh]
        split: sum.splits)
qed

text \<open>
  \<^bold>\<open>C3.\<close>  The call \<open>keepKeys\<close> sets \<^verbatim>\<open>removePlaceholdersFromData\<close> to \<^verbatim>\<open>false\<close>,
  and \<^verbatim>\<open>makeRequest\<close> still strips the key \<^verbatim>\<open>docId\<close> it used for the path from the
  caller's bag: the flag is never read, \<^verbatim>\<open>makeRequest\<close> passes
  \<^verbatim>\<open>urlData === options\<close> as \<^verbatim>\<open>removeUsed\<close>.
\<close>

theorem makeRequest_strips_despite_flag:
  "removePlaceholdersFromData keepKeys = JBool False
   \<and> makeRequest demoEnv keepKeys (JObj [(''docId'', JStr ''123''), (''extra'', JStr ''x'')])
     = (JObj [(''extra'', JStr ''x'')],
        Inr \<lparr>url = \<lparr>href = ''/docs/123'', searchParams = [(''extra'', ''x'')]\<rparr>,
             init = [(''method'', JStr ''GET''),
                     (''headers'', JHeaders [(''content-type'', ''application/json''),
                                             (''accept'', ''application/json'')])],
             body = None\<rparr>)"
  by code_simp

text \<open>
  \<^bold>\<open>C8.\<close>  For a verb whose rule has \<^verbatim>\<open>requestBody === false\<close>: with an explicit body
  that is neither \<^verbatim>\<open>null\<close> nor \<^verbatim>\<open>undefined\<close>, \<^verbatim>\<open>makeRequest\<close> raises the
  \<^verbatim>\<open>RangeError\<close>, the bag is untouched and \<^verbatim>\<open>send\<close> hands nothing to the transport.
  Without an explicit body the bag is never the body: the body source is \<^verbatim>\<open>null\<close>, a
  request that is built has no body, and the only error left is that of missing URL
  parameters.
\<close>

theorem makeRequest_body_forbidden:
  assumes m: "getProp (JObj (httpMethods mc)) (http mc) = methOpts"
    and o: "isObj methOpts"
    and f: "getProp methOpts ''requestBody'' = JBool False"
  shows "(notNil (getProp arg ''body'') \<longrightarrow>
            makeRequest e mc arg
              = (arg, Inl (RangeError (''Request body forbidden for '' @ http mc)))
            \<and> send e mc arg
              = (arg, [], Inl (RangeError (''Request body forbidden for '' @ http mc))))
    \<and> (\<not> notNil (getProp arg ''body'') \<and> arg \<noteq> JNull \<longrightarrow>
          (\<forall>cur. bodyData methOpts arg cur = JNull)
          \<and> (\<forall>err. snd (makeRequest e mc arg) = Inl err \<longrightarrow> (\<exists>ms. err = MissingURLParameters ms))
          \<and> (\<forall>req. snd (makeRequest e mc arg) = Inr req \<longrightarrow> body req = None))"
proof -
  have a: "makeRequest e mc arg
              = (arg, Inl (RangeError (''Request body forbidden for '' @ http mc)))"
    if b: "notNil (getProp arg ''body'')"
  proof -
    have "arg \<noteq> JNull" "arg \<noteq> JUndefined" using b by (auto simp: getProp_def)
    moreover have "notNil (bodyData methOpts arg arg)" using b by (simp add: bodyData_def)
    ultimately show ?thesis using f by (simp add: makeRequest_known_verb [OF m o])
  qed
  have s: "send e mc arg
              = (arg, [], Inl (RangeError (''Request body forbidden for '' @ http mc)))"
    if b: "notNil (getProp arg ''body'')"
    using a [OF b] by (simp add: send_def)
  have c: "bodyData methOpts arg cur = JNull" if "\<not> notNil (getProp arg ''body'')" for cur
    using that f by (simp add: bodyData_def)
  have d: "(\<forall>err. snd (makeRequest e mc arg) = Inl err \<longrightarrow> (\<exists>ms. err = MissingURLParameters ms))
         \<and> (\<forall>req. snd (makeRequest e mc arg) = Inr req \<longrightarrow> body req = None)"
    if nb: "\<not> notNil (getProp arg ''body'')" and nn: "arg \<noteq> JNull"
  proof -
    define opts where "opts = (if arg = JUndefined then JObj [] else arg)"
    have mk: "makeRequest e mc arg = makeRequest e mc opts"
      by (simp add: opts_def makeRequest_no_argument)
    have "getProp (JObj []) ''body'' = JUndefined" by code_simp
    then have ob: "\<not> notNil (getProp opts ''body'')"
      using nb by (cases "arg = JUndefined") (simp_all add: opts_def)
    have on: "opts \<noteq> JNull" "opts \<noteq> JUndefined" using nn by (auto simp: opts_def)
    have bd: "bodyData methOpts opts cur = JNull" for cur
      using ob f by (simp add: bodyData_def)
    have nf: "\<not> (getProp methOpts ''requestBody'' = JBool False
                 \<and> notNil (bodyData methOpts opts opts))"
      by (simp add: bd)
    show ?thesis
    proof (cases "notNil (getProp opts ''vars'')")
      case True
      then have r: "snd (makeRequest e mc arg) =
          (case snd (parseURL e mc (urlData opts) False) of
             Inl err \<Rightarrow> Inl err
           | Inr u \<Rightarrow> assemble e mc methOpts opts opts u)"
        by (simp add: mk makeRequest_result [OF m o on nf])
      show ?thesis
        unfolding r using parseURL_error [of e mc "urlData opts" False]
        by (cases "snd (parseURL e mc (urlData opts) False)")
           (auto simp: assemble_no_body [OF bd])
    next
      case False
      then have r: "snd (makeRequest e mc arg) =
          (case snd (parseURL e mc opts True) of
             Inl err \<Rightarrow> Inl err
           | Inr u \<Rightarrow> assemble e mc methOpts opts (fst (parseURL e mc opts True)) u)"
        by (simp add: mk makeRequest_result [OF m o on nf])
      show ?thesis
        unfolding r using parseURL_error [of e mc opts True]
        by (cases "snd (parseURL e mc opts True)")
           (auto simp: assemble_no_body [OF bd])
    qed
  qed
  from a s c d show ?thesis by blast
qed

theorem makeRequest_body_forbidden_witness:
  "makeRequest demoEnv getDoc (JObj [(''docId'', JStr ''123''), (''body'', JStr ''x'')])
     = (JObj [(''docId'', JStr ''123''), (''body'', JStr ''x'')],
        Inl (RangeError (''Request body forbidden for '' @ http getDoc)))
   \<and> send demoEnv getDoc (JObj [(''docId'', JStr ''123''), (''body'', JStr ''x'')])
     = (JObj [(''docId'', JStr ''123''), (''body'', JStr ''x'')], [],
        Inl (RangeError (''Request body forbidden for '' @ http getDoc)))
   \<and> bodyData (httpRules (JBool False) (JBool True) True True True)
        (JObj [(''docId'', JStr ''123'')]) (JObj []) = JNull"
proof -
  have h1: "getProp (JObj (httpMethods getDoc)) (http getDoc)
              = httpRules (JBool False) (JBool True) True True True" by code_simp
  have h2: "isObj (httpRules (JBool False) (JBool True) True True True)" by code_simp
  have h3: "getProp (httpRules (JBool False) (JBool True) True True True) ''requestBody''
              = JBool False" by code_simp
  have b: "notNil (getProp (JObj [(''docId'', JStr ''123''), (''body'', JStr ''x'')]) ''body'')"
    by code_simp
  have n: "\<not> notNil (getProp (JObj [(''docId'', JStr ''123'')]) ''body'')
           \<and> JObj [(''docId'', JStr ''123'')] \<noteq> JNull"
    by code_simp
  show ?thesis
    using makeRequest_body_forbidden [OF h1 h2 h3, of "JObj [(''docId'', JStr ''123''), (''body'', JStr ''x'')]" demoEnv]
      makeRequest_body_forbidden [OF h1 h2 h3, of "JObj [(''docId'', JStr ''123'')]" demoEnv] b n
    by blast
qed

subsection \<open>Headers passed as an instance\<close>






subsection \<open>Response decoding\<close>

lemma doXHTML_resolved:
  "truthy (doXHTML mc)
     = ((truthy (autoDecodeXML mc) \<or> truthy (autoDecodeHTML mc)) \<and> truthy (resolvedXHTML mc))"
  by (simp add: doXHTML_def resolvedXHTML_def)

theorem send_xhtml_toggle_alone_counterexample:
  "resolvedXHTML xhtmlOnly = JBool True
   \<and> send demoEnv xhtmlOnly (JObj [])
     = (JObj [],
        [\<lparr>url = \<lparr>href = ''/page'', searchParams = []\<rparr>,
          init = [(''method'', JStr ''GET''), (''headers'', JHeaders [])], body = None\<rparr>],
        Inr (Raw \<lparr>resp_headers = [(''content-type'', ''application/xhtml+xml'')],
                  resp_text = ''<html/>''\<rparr>))"
  by code_simp

text \<open>
  \<^bold>\<open>C5\<close> (amended).  For a response that \<^verbatim>\<open>send\<close> receives: one whose Content-Type is
  the XHTML type is decoded only when the XML or the HTML toggle is on and the XHTML toggle
  resolves to true (its own value when it is a boolean, the HTML toggle's otherwise), and
  then as HTML if the HTML toggle is on and as XML otherwise; without a Content-Type, or
  when no rule matches it, the raw response is returned.
\<close>

theorem send_decodes_by_content_type:
  assumes "makeRequest e mc arg = (bag, Inr req)" and "fetch e req = Inr r"
  shows "send e mc arg = (bag, [req], Inr (decodeResponse mc r))
    \<and> (headersGet (resp_headers r) CT = JStr (XHTML MIME) \<longrightarrow>
         decodeResponse mc r =
           (if (truthy (autoDecodeXML mc) \<or> truthy (autoDecodeHTML mc))
               \<and> truthy (resolvedXHTML mc)
            then (if truthy (autoDecodeHTML mc) then ParsedHTML r else ParsedXML r (XHTML MIME))
            else Raw r))
    \<and> (headersGet (resp_headers r) CT = JNull \<longrightarrow> decodeResponse mc r = Raw r)
    \<and> (\<forall>ct. headersGet (resp_headers r) CT = JStr ct
          \<and> \<not> (truthy (autoDecodeJSON mc) \<and> ct = JSON MIME)
          \<and> \<not> (truthy (autoDecodeXML mc) \<and> ct = XML MIME)
          \<and> \<not> (truthy (autoDecodeHTML mc) \<and> ct = HTML MIME)
          \<and> \<not> ((truthy (autoDecodeXML mc) \<or> truthy (autoDecodeHTML mc))
                \<and> truthy (resolvedXHTML mc) \<and> ct = XHTML MIME)
          \<longrightarrow> decodeResponse mc r = Raw r)"
proof -
  have s: "send e mc arg = (bag, [req], Inr (decodeResponse mc r))"
    using assms by (simp add: send_def)
  have x: "headersGet (resp_headers r) CT = JStr (XHTML MIME) \<longrightarrow>
         decodeResponse mc r =
           (if (truthy (autoDecodeXML mc) \<or> truthy (autoDecodeHTML mc))
               \<and> truthy (resolvedXHTML mc)
            then (if truthy (autoDecodeHTML mc) then ParsedHTML r else ParsedXML r (XHTML MIME))
            else Raw r)"
    by (simp add: decodeResponse_def MIME_def doXHTML_resolved)
  have n: "headersGet (resp_headers r) CT = JNull \<longrightarrow> decodeResponse mc r = Raw r"
    by (simp add: decodeResponse_def)
  have o: "\<forall>ct. headersGet (resp_headers r) CT = JStr ct
          \<and> \<not> (truthy (autoDecodeJSON mc) \<and> ct = JSON MIME)
          \<and> \<not> (truthy (autoDecodeXML mc) \<and> ct = XML MIME)
          \<and> \<not> (truthy (autoDecodeHTML mc) \<and> ct = HTML MIME)
          \<and> \<not> ((truthy (autoDecodeXML mc) \<or> truthy (autoDecodeHTML mc))
                \<and> truthy (resolvedXHTML mc) \<and> ct = XHTML MIME)
          \<longrightarrow> decodeResponse mc r = Raw r"
    by (auto simp: decodeResponse_def doXHTML_resolved)
  from s x n o show ?thesis by blast
qed

theorem send_decodes_by_content_type_witness:
  "send demoEnv htmlPages (JObj [])
     = (JObj [],
        [\<lparr>url = \<lparr>href = ''/page'', searchParams = []\<rparr>,
          init = [(''method'', JStr ''GET''), (''headers'', JHeaders [])], body = None\<rparr>],
        Inr (ParsedHTML \<lparr>resp_headers = [(''content-type'', ''application/xhtml+xml'')],
                         resp_text = ''<html/>''\<rparr>))"
proof -
  let ?req = "\<lparr>url = \<lparr>href = ''/page'', searchParams = []\<rparr>,
          init = [(''method'', JStr ''GET''), (''headers'', JHeaders [])], body = None\<rparr>"
  let ?r = "\<lparr>resp_headers = [(''content-type'', ''application/xhtml+xml'')],
             resp_text = ''<html/>''\<rparr>"
  have h1: "makeRequest demoEnv htmlPages (JObj []) = (JObj [], Inr ?req)" by code_simp
  have h2: "fetch demoEnv ?req = Inr ?r" by (simp add: demoEnv_def)
  have c: "headersGet (resp_headers ?r) CT = JStr (XHTML MIME)" by code_simp
  have t: "truthy (autoDecodeHTML htmlPages)" "truthy (resolvedXHTML htmlPages)" by code_simp+
  show ?thesis
    using send_decodes_by_content_type [OF h1 h2] c t by simp
qed

end
